theory Spec2Isabelle
  imports Complex_Main "HOL-Library.AList"
begin

section \<open>Values and exceptions of the Python runtime\<close>

text \<open>
  The program handles values decoded from JSON (\<open>json.loads\<close>, \<open>response.json()\<close>):
  \<open>None\<close>, booleans, integers, floats, strings, lists and dictionaries with string keys.
  A float is represented by its exact value; the non-finite floats are left out.
  A dictionary is an association list in insertion order; the decoder never produces a
  key twice.
\<close>

datatype json =
    JNull
  | JBool bool
  | JInt int
  | JFloat rat
  | JStr string
  | JArr "json list"
  | JObj "(string \<times> json) list"

text \<open>
  Exceptions that are instances of \<open>Exception\<close>. \<open>ServiceError\<close> stands for whatever an
  external call raises (HTTP transport, JSON decoding, the text-generation client),
  with its description.
\<close>

datatype py_error =
    KeyError json
  | IndexError
  | TypeError
  | ValueError
  | EOFError
  | ServiceError string

definition ebind :: "py_error + 'a \<Rightarrow> ('a \<Rightarrow> py_error + 'b) \<Rightarrow> py_error + 'b" where
  "ebind m f = (case m of Inl e \<Rightarrow> Inl e | Inr x \<Rightarrow> f x)"

text \<open>Truth value testing, as \<open>if x:\<close> and \<open>x and y\<close> apply it.\<close>

fun truthy :: "json \<Rightarrow> bool" where
  "truthy JNull = False"
| "truthy (JBool b) = b"
| "truthy (JInt i) = (i \<noteq> 0)"
| "truthy (JFloat r) = (r \<noteq> 0)"
| "truthy (JStr s) = (s \<noteq> [])"
| "truthy (JArr xs) = (xs \<noteq> [])"
| "truthy (JObj kvs) = (kvs \<noteq> [])"

text \<open>Indexing a sequence with an integer: negative indices count from the end.\<close>

definition seq_index :: "'a list \<Rightarrow> int \<Rightarrow> py_error + 'a" where
  "seq_index xs i =
     (if 0 \<le> i \<and> i < int (length xs) then Inr (xs ! nat i)
      else if i < 0 \<and> - int (length xs) \<le> i then Inr (xs ! nat (int (length xs) + i))
      else Inl IndexError)"

text \<open>
  The subscript \<open>c[k]\<close>. A dictionary is looked up by key (a list or dictionary as key is
  unhashable); a list and a string are indexed by an integer, and a boolean is one.
\<close>

fun subscript :: "json \<Rightarrow> json \<Rightarrow> py_error + json" where
  "subscript (JObj kvs) (JStr k) =
     (case map_of kvs k of None \<Rightarrow> Inl (KeyError (JStr k)) | Some v \<Rightarrow> Inr v)"
| "subscript (JObj kvs) (JArr ks) = Inl TypeError"
| "subscript (JObj kvs) (JObj ks) = Inl TypeError"
| "subscript (JObj kvs) k = Inl (KeyError k)"
| "subscript (JArr xs) (JInt i) = seq_index xs i"
| "subscript (JArr xs) (JBool b) = seq_index xs (if b then 1 else 0)"
| "subscript (JArr xs) k = Inl TypeError"
| "subscript (JStr s) (JInt i) = map_sum id (\<lambda>c. JStr [c]) (seq_index s i)"
| "subscript (JStr s) (JBool b) =
     map_sum id (\<lambda>c. JStr [c]) (seq_index s (if b then 1 else 0))"
| "subscript (JStr s) k = Inl TypeError"
| "subscript c k = Inl TypeError"

text \<open>The items a \<open>for\<close> clause draws from a value.\<close>

fun iterate :: "json \<Rightarrow> py_error + json list" where
  "iterate (JObj kvs) = Inr (map (\<lambda>(k, v). JStr k) kvs)"
| "iterate (JArr xs) = Inr xs"
| "iterate (JStr s) = Inr (map (\<lambda>c. JStr [c]) s)"
| "iterate c = Inl TypeError"

section \<open>Condition lookup\<close>

definition PICTOCODE_MEANINGS :: "(int \<times> string) list" where
  "PICTOCODE_MEANINGS =
    [(1, ''Clear, cloudless sky''),
     (2, ''Clear, few cirrus''),
     (3, ''Clear with cirrus''),
     (4, ''Clear with few low clouds''),
     (5, ''Clear with few low clouds and few cirrus''),
     (6, ''Clear with few low clouds and cirrus''),
     (7, ''Partly cloudy''),
     (8, ''Partly cloudy and few cirrus''),
     (9, ''Partly cloudy and cirrus''),
     (10, ''Mixed with some thunderstorm clouds possible''),
     (11, ''Mixed with few cirrus with some thunderstorm clouds possible''),
     (12, ''Mixed with cirrus and some thunderstorm clouds possible''),
     (13, ''Clear but hazy''),
     (14, ''Clear but hazy with few cirrus''),
     (15, ''Clear but hazy with cirrus''),
     (16, ''Fog/low stratus clouds''),
     (17, ''Fog/low stratus clouds with few cirrus''),
     (18, ''Fog/low stratus clouds with cirrus''),
     (19, ''Mostly cloudy''),
     (20, ''Mostly cloudy and few cirrus''),
     (21, ''Mostly cloudy and cirrus''),
     (22, ''Overcast''),
     (23, ''Overcast with rain''),
     (24, ''Overcast with snow''),
     (25, ''Overcast with heavy rain''),
     (26, ''Overcast with heavy snow''),
     (27, ''Rain, thunderstorms likely''),
     (28, ''Light rain, thunderstorms likely''),
     (29, ''Storm with heavy snow''),
     (30, ''Heavy rain, thunderstorms likely''),
     (31, ''Mixed with showers''),
     (32, ''Mixed with snow showers''),
     (33, ''Overcast with light rain''),
     (34, ''Overcast with light snow''),
     (35, ''Overcast with mixture of snow and rain'')]"

text \<open>\<open>d.get(key, default)\<close> on a dictionary with integer keys.\<close>

definition dict_get :: "(int \<times> string) list \<Rightarrow> int \<Rightarrow> string \<Rightarrow> string" where
  "dict_get d k dflt = (case map_of d k of None \<Rightarrow> dflt | Some v \<Rightarrow> v)"

text \<open>
  The lookup of \<open>generate_response\<close>,
  \<open>PICTOCODE_MEANINGS.get(code, "Unknown weather condition")\<close>, at an integer code.
\<close>

definition describe :: "int \<Rightarrow> string" where
  "describe code = dict_get PICTOCODE_MEANINGS code ''Unknown weather condition''"

text \<open>
  The same lookup in \<open>generate_response\<close>, where the key is whatever the provider sent
  as pictocode: a boolean or an integral float equals the integer of the same value, a
  list or a dictionary is unhashable, anything else is not a key of the table.
\<close>

fun weather_condition :: "json \<Rightarrow> py_error + string" where
  "weather_condition (JInt i) = Inr (describe i)"
| "weather_condition (JBool b) = Inr (describe (if b then 1 else 0))"
| "weather_condition (JFloat r) =
     Inr (if of_int \<lfloor>r\<rfloor> = r then describe \<lfloor>r\<rfloor> else ''Unknown weather condition'')"
| "weather_condition (JArr xs) = Inl TypeError"
| "weather_condition (JObj kvs) = Inl TypeError"
| "weather_condition k = Inr ''Unknown weather condition''"

section \<open>The environment of the program\<close>

text \<open>
  What the program reaches outside its own text: the clock, the two HTTP services, the
  text-generation model, and the library functions it calls. A calendar date is its
  proleptic Gregorian ordinal (\<open>date.toordinal()\<close>), so that \<open>(a - b).days\<close> is the
  difference of two ordinals.
  \<^item> \<open>today\<close>: \<open>datetime.now().date()\<close>;
  \<^item> \<open>strptime\<close>: \<open>datetime.strptime(s, "%Y-%m-%d").date()\<close>, or the \<open>ValueError\<close> it raises;
  \<^item> \<open>strftime\<close>: \<open>d.strftime("%Y-%m-%d")\<close>;
  \<^item> \<open>json_loads\<close>: \<open>json.loads\<close>;
  \<^item> \<open>generate_content\<close>: \<open>model.generate_content(prompt).text\<close>;
  \<^item> \<open>requests_get_json\<close>: \<open>requests.get(url).json()\<close>;
  \<^item> \<open>py_str\<close>: the text an f-string puts for a value that is not a string;
  \<^item> \<open>exc_str\<close>: \<open>str(e)\<close> of an exception.
\<close>

record world =
  today :: int
  strptime :: "string \<Rightarrow> py_error + int"
  strftime :: "int \<Rightarrow> string"
  json_loads :: "string \<Rightarrow> py_error + json"
  generate_content :: "string \<Rightarrow> py_error + string"
  requests_get_json :: "string \<Rightarrow> py_error + json"
  py_str :: "json \<Rightarrow> string"
  exc_str :: "py_error \<Rightarrow> string"

text \<open>A replacement field \<open>{v}\<close> of an f-string.\<close>

definition fmt :: "world \<Rightarrow> json \<Rightarrow> string" where
  "fmt w v = (case v of JStr s \<Rightarrow> s | _ \<Rightarrow> py_str w v)"

text \<open>\<open>os.environ[name]\<close>.\<close>

definition environ_get :: "(string \<Rightarrow> string option) \<Rightarrow> string \<Rightarrow> py_error + string" where
  "environ_get env name =
     (case env name of None \<Rightarrow> Inl (KeyError (JStr name)) | Some v \<Rightarrow> Inr v)"

text \<open>Running \<open>f\<close> over a list in order, stopping at the first exception.\<close>

fun emap :: "('a \<Rightarrow> py_error + 'b) \<Rightarrow> 'a list \<Rightarrow> py_error + 'b list" where
  "emap f [] = Inr []"
| "emap f (x # xs) = ebind (f x) (\<lambda>y. ebind (emap f xs) (\<lambda>ys. Inr (y # ys)))"

section \<open>Geocoder adapter\<close>

definition geocode_url :: "world \<Rightarrow> json \<Rightarrow> string \<Rightarrow> string" where
  "geocode_url w location key =
     ''https://api.opencagedata.com/geocode/v1/json?q='' @ fmt w location @ ''&key='' @ key"

definition geocode_location ::
  "(string \<Rightarrow> string option) \<Rightarrow> world \<Rightarrow> json \<Rightarrow> py_error + json \<times> json" where
  "geocode_location env w location =
     ebind (environ_get env ''OPENCAGE_API_KEY'') (\<lambda>key.
     ebind (requests_get_json w (geocode_url w location key)) (\<lambda>data.
     ebind (subscript data (JStr ''results'')) (\<lambda>results.
     if truthy results then
       ebind (subscript results (JInt 0)) (\<lambda>first.
       ebind (subscript first (JStr ''geometry'')) (\<lambda>geometry.
       ebind (subscript geometry (JStr ''lat'')) (\<lambda>lat.
       ebind (subscript results (JInt 0)) (\<lambda>first'.
       ebind (subscript first' (JStr ''geometry'')) (\<lambda>geometry'.
       ebind (subscript geometry' (JStr ''lng'')) (\<lambda>lon.
       Inr (lat, lon)))))))
     else Inr (JNull, JNull))))"

section \<open>Forecast adapter\<close>

definition forecast_url :: "world \<Rightarrow> json \<Rightarrow> json \<Rightarrow> string \<Rightarrow> string" where
  "forecast_url w lat lon key =
     ''https://my.meteoblue.com/packages/basic-day?apikey='' @ key
       @ ''&lat='' @ fmt w lat @ ''&lon='' @ fmt w lon @ ''&format=json''"

text \<open>\<open>datetime.strptime(date, "%Y-%m-%d").date()\<close>: an argument that is not a string is a \<open>TypeError\<close>.\<close>

definition parse_date :: "world \<Rightarrow> json \<Rightarrow> py_error + int" where
  "parse_date w date = (case date of JStr s \<Rightarrow> strptime w s | _ \<Rightarrow> Inl TypeError)"

text \<open>\<open>data["data_day"][key][days_difference]\<close>.\<close>

definition day_value :: "json \<Rightarrow> json \<Rightarrow> int \<Rightarrow> py_error + json" where
  "day_value data key days_difference =
     ebind (subscript data (JStr ''data_day'')) (\<lambda>data_day.
     ebind (subscript data_day key) (\<lambda>column.
     subscript column (JInt days_difference)))"

text \<open>
  The comprehension
  \<open>{key: data["data_day"][key][days_difference] for key in data["data_day"]}\<close>,
  as the list of its items in the order they are stored.
\<close>

definition day_data :: "json \<Rightarrow> int \<Rightarrow> py_error + (json \<times> json) list" where
  "day_data data days_difference =
     ebind (subscript data (JStr ''data_day'')) (\<lambda>data_day.
     ebind (iterate data_day) (\<lambda>keys.
     emap (\<lambda>key. ebind (day_value data key days_difference) (\<lambda>v. Inr (key, v))) keys))"

text \<open>\<open>d[name]\<close> on the dictionary built from a list of items: a later item replaces an earlier one.\<close>

definition dict_item :: "(json \<times> json) list \<Rightarrow> string \<Rightarrow> py_error + json" where
  "dict_item items name =
     (case map_of (rev items) (JStr name) of
        None \<Rightarrow> Inl (KeyError (JStr name))
      | Some v \<Rightarrow> Inr v)"

text \<open>The keys of the returned dictionary, and the provider's key each one is read from.\<close>

definition forecast_fields :: "string list" where
  "forecast_fields =
     [''date'', ''temperature_max'', ''temperature_min'', ''temperature_mean'',
      ''felttemperature_max'', ''felttemperature_min'', ''precipitation'',
      ''precipitation_probability'', ''windspeed_mean'', ''winddirection'',
      ''pictocode'', ''uvindex'', ''relativehumidity_mean'']"

definition provider_keys :: "string list" where
  "provider_keys =
     [''time'', ''temperature_max'', ''temperature_min'', ''temperature_mean'',
      ''felttemperature_max'', ''felttemperature_min'', ''precipitation'',
      ''precipitation_probability'', ''windspeed_mean'', ''winddirection'',
      ''pictocode'', ''uvindex'', ''relativehumidity_mean'']"

text \<open>
  The result is the dictionary of the thirteen fields, or \<open>None\<close> (\<open>JNull\<close>). The values
  of the dictionary display are evaluated in the order they are written.
\<close>

definition get_weather_data ::
  "(string \<Rightarrow> string option) \<Rightarrow> world \<Rightarrow> json \<Rightarrow> json \<Rightarrow> json \<Rightarrow> py_error + json" where
  "get_weather_data env w lat lon date =
     ebind (environ_get env ''METEOBLUE_API_KEY'') (\<lambda>key.
     ebind (requests_get_json w (forecast_url w lat lon key)) (\<lambda>data.
     ebind (parse_date w date) (\<lambda>target_date.
     let days_difference = target_date - today w in
     if 0 \<le> days_difference \<and> days_difference < 7 then
       ebind (day_data data days_difference) (\<lambda>items.
       ebind (emap (dict_item items) provider_keys) (\<lambda>vs.
       Inr (JObj (zip forecast_fields vs))))
     else Inr JNull)))"

section \<open>Query interpreter\<close>

definition query_prompt :: "string \<Rightarrow> string" where
  \<open>query_prompt query =
     ''\<newline>'' @
     ''    Extract the location and date from the following weather-related query. \<newline>'' @
     ''    If no specific date is mentioned, assume it's for today.\<newline>'' @
     ''    Query: '' @ query @ ''\<newline>'' @
     ''    Return the result like this:\<newline>'' @
     ''    {\<newline>'' @
     ''        "location": "extracted location",\<newline>'' @
     ''        "date": "extracted date in YYYY-MM-DD format"\<newline>'' @
     ''    }\<newline>'' @
     ''    ''\<close>

text \<open>The assignment \<open>d[name] = v\<close>; only a dictionary takes a string key.\<close>

fun setitem :: "json \<Rightarrow> string \<Rightarrow> json \<Rightarrow> py_error + json" where
  "setitem (JObj kvs) name v = Inr (JObj (AList.update name v kvs))"
| "setitem c name v = Inl TypeError"

definition process_user_query :: "world \<Rightarrow> string \<Rightarrow> py_error + json \<times> json" where
  "process_user_query w query =
     ebind (generate_content w (query_prompt query)) (\<lambda>result.
     ebind (json_loads w result) (\<lambda>extracted_info.
     ebind (subscript extracted_info (JStr ''date'')) (\<lambda>d.
     ebind (if d = JStr ''today''
            then setitem extracted_info ''date'' (JStr (strftime w (today w)))
            else Inr extracted_info) (\<lambda>extracted_info'.
     ebind (subscript extracted_info' (JStr ''location'')) (\<lambda>location.
     ebind (subscript extracted_info' (JStr ''date'')) (\<lambda>date.
     Inr (location, date)))))))"

section \<open>Response composer\<close>

definition degree :: string where
  "degree = [CHR 0xC2, CHR 0xB0]"

definition prompt_fields :: "string list" where
  "prompt_fields =
     [''date'', ''temperature_max'', ''temperature_min'', ''temperature_mean'',
      ''felttemperature_max'', ''felttemperature_min'', ''precipitation'',
      ''precipitation_probability'', ''windspeed_mean'', ''winddirection'',
      ''uvindex'', ''relativehumidity_mean'']"

text \<open>
  The second prompt, from the location, the decoded condition and the twelve values of
  \<open>prompt_fields\<close> in that order (\<open>vs ! 0\<close> is the date).
\<close>

definition response_prompt :: "world \<Rightarrow> json \<Rightarrow> string \<Rightarrow> json list \<Rightarrow> string" where
  \<open>response_prompt w location condition vs =
     ''\<newline>'' @
     ''    Analyze the following weather data and generate a detailed, natural language response:\<newline>'' @
     ''    \<newline>'' @
     ''    Location: '' @ fmt w location @ ''\<newline>'' @
     ''    Date: '' @ fmt w (vs ! 0) @ ''\<newline>'' @
     ''    Weather Condition: '' @ condition @ ''\<newline>'' @
     ''    Temperature:\<newline>'' @
     ''      - Max: '' @ fmt w (vs ! 1) @ degree @ ''C\<newline>'' @
     ''      - Min: '' @ fmt w (vs ! 2) @ degree @ ''C\<newline>'' @
     ''      - Mean: '' @ fmt w (vs ! 3) @ degree @ ''C\<newline>'' @
     ''    Felt Temperature:\<newline>'' @
     ''      - Max: '' @ fmt w (vs ! 4) @ degree @ ''C\<newline>'' @
     ''      - Min: '' @ fmt w (vs ! 5) @ degree @ ''C\<newline>'' @
     ''    Precipitation: '' @ fmt w (vs ! 6) @ '' mm\<newline>'' @
     ''    Precipitation Probability: '' @ fmt w (vs ! 7) @ ''%\<newline>'' @
     ''    Wind:\<newline>'' @
     ''      - Speed: '' @ fmt w (vs ! 8) @ '' m/s\<newline>'' @
     ''      - Direction: '' @ fmt w (vs ! 9) @ degree @ ''\<newline>'' @
     ''    UV Index: '' @ fmt w (vs ! 10) @ ''\<newline>'' @
     ''    Relative Humidity: '' @ fmt w (vs ! 11) @ ''%\<newline>'' @
     ''\<newline>'' @
     ''    Provide a comprehensive weather report that includes:\<newline>'' @
     ''    1. A summary of the overall weather condition\<newline>'' @
     ''    2. Temperature analysis, including how it might feel\<newline>'' @
     ''    3. Precipitation forecast and probability\<newline>'' @
     ''    4. Wind conditions and what they mean for the day\<newline>'' @
     ''    5. UV index interpretation and sun protection advice if needed\<newline>'' @
     ''    6. Any notable weather patterns or changes\<newline>'' @
     ''\<newline>'' @
     ''    The response should be friendly, informative, and easy to understand for the general public.\<newline>'' @
     ''    ''\<close>

definition generate_response :: "world \<Rightarrow> json \<Rightarrow> json \<Rightarrow> py_error + string" where
  "generate_response w weather_data location =
     ebind (subscript weather_data (JStr ''pictocode'')) (\<lambda>code.
     ebind (weather_condition code) (\<lambda>condition.
     ebind (emap (\<lambda>name. subscript weather_data (JStr name)) prompt_fields) (\<lambda>vs.
     generate_content w (response_prompt w location condition vs))))"

section \<open>Interactive loop\<close>

text \<open>What the loop prints: the banner, the composed report, the four messages, the farewell.\<close>

datatype message =
    Welcome
  | Report string
  | M1
  | M2 json
  | M3 json json
  | M4 py_error
  | Farewell


text \<open>The body of the \<open>try\<close> block: the message it prints, or the exception that leaves it.\<close>

definition turn_body ::
  "(string \<Rightarrow> string option) \<Rightarrow> world \<Rightarrow> string \<Rightarrow> py_error + message" where
  "turn_body env w user_input =
     ebind (process_user_query w user_input) (\<lambda>(location, date).
     if truthy location \<and> truthy date then
       ebind (geocode_location env w location) (\<lambda>(lat, lon).
       if truthy lat \<and> truthy lon then
         ebind (get_weather_data env w lat lon date) (\<lambda>weather_data.
         if truthy weather_data then
           ebind (generate_response w weather_data location) (\<lambda>response.
           Inr (Report response))
         else Inr (M3 location date))
       else Inr (M2 location))
     else Inr M1)"

text \<open>The whole \<open>try\<close> statement: \<open>except Exception as e\<close> prints the fourth message.\<close>

definition turn :: "(string \<Rightarrow> string option) \<Rightarrow> world \<Rightarrow> string \<Rightarrow> message" where
  "turn env w user_input =
     (case turn_body env w user_input of Inl e \<Rightarrow> M4 e | Inr m \<Rightarrow> m)"

text \<open>
  \<open>str.lower()\<close> on the letters A to Z. A character outside ASCII is left as it is: none
  of them lowers to one of the letters of \<open>exit\<close>.
\<close>

definition lower_char :: "char \<Rightarrow> char" where
  "lower_char c =
     (case map_of (zip ''ABCDEFGHIJKLMNOPQRSTUVWXYZ'' ''abcdefghijklmnopqrstuvwxyz'') c of
        None \<Rightarrow> c
      | Some l \<Rightarrow> l)"

definition lower :: "string \<Rightarrow> string" where
  "lower s = map lower_char s"

text \<open>How the process ends: after the farewell, or by an exception nothing catches.\<close>

datatype ending = Exited | Crashed py_error

text \<open>
  The \<open>while True\<close> loop. Standard input is the sequence of its lines, \<open>stdin n\<close> being
  line \<open>n\<close> or \<open>None\<close> once the input has ended, where \<open>input()\<close> raises \<open>EOFError\<close>
  outside the \<open>try\<close> block. \<open>W n\<close> is the environment during turn \<open>n\<close>. The state is the
  number of lines read and the messages printed so far; the result is the messages
  printed, the number of lines read, and the ending. A loop that never stops has no
  result (\<open>None\<close>).
\<close>

partial_function (option) chat_loop ::
  "(string \<Rightarrow> string option) \<Rightarrow> (nat \<Rightarrow> world) \<Rightarrow> (nat \<Rightarrow> string option) \<Rightarrow> nat
     \<Rightarrow> message list \<Rightarrow> (message list \<times> nat \<times> ending) option" where
  "chat_loop env W stdin n out =
     (case stdin n of
        None \<Rightarrow> Some (out, n, Crashed EOFError)
      | Some user_input \<Rightarrow>
          if lower user_input = ''exit'' then Some (out @ [Farewell], Suc n, Exited)
          else chat_loop env W stdin (Suc n) (out @ [turn env (W n) user_input]))"

text \<open>
  The module from its first line: \<open>genai.configure(api_key=os.environ["GEMINI_API_KEY"])\<close>
  runs at import, before the banner.
\<close>

definition main ::
  "(string \<Rightarrow> string option) \<Rightarrow> (nat \<Rightarrow> world) \<Rightarrow> (nat \<Rightarrow> string option)
     \<Rightarrow> (message list \<times> nat \<times> ending) option" where
  "main env W stdin =
     (case environ_get env ''GEMINI_API_KEY'' of
        Inl e \<Rightarrow> Some ([], 0, Crashed e)
      | Inr api_key \<Rightarrow> chat_loop env W stdin 0 [Welcome])"


section \<open>Where the loop stops\<close>



section \<open>The shape of a provider response\<close>

text \<open>
  The forecast response the adapter expects: \<open>data_day\<close> is a dictionary, each of its
  values is an array with an entry for each of the seven days, and the thirteen keys
  the adapter reads are among its keys.
\<close>

definition seven_day_column :: "json \<Rightarrow> bool" where
  "seven_day_column v = (case v of JArr xs \<Rightarrow> 7 \<le> length xs | _ \<Rightarrow> False)"

definition well_formed_forecast :: "json \<Rightarrow> bool" where
  "well_formed_forecast data =
     (case subscript data (JStr ''data_day'') of
        Inr (JObj kvs) \<Rightarrow>
          list_all (\<lambda>(k, v). seven_day_column v) kvs
          \<and> list_all (\<lambda>name. name \<in> set (map fst kvs)) provider_keys
      | _ \<Rightarrow> False)"

section \<open>A sample session\<close>

text \<open>
  Concrete inputs to run the definitions on. Today is 2024-09-27; the forecast service
  answers for Munich with the seven days from today; the geocoder knows Munich, finds
  nothing for Atlantis, places Equator at latitude \<open>0.0\<close>, and answers for Nowhere with
  a latitude of \<open>null\<close>. Floats are written as fractions in lowest terms: 11.576 is
  \<open>1447 / 125\<close> and 6.5 is \<open>13 / 2\<close>.
\<close>

definition sample_dates :: "(string \<times> int) list" where
  "sample_dates =
     [(''2024-09-26'', 739155), (''2024-09-27'', 739156), (''2024-09-28'', 739157),
      (''2024-09-29'', 739158), (''2024-09-30'', 739159), (''2024-10-01'', 739160),
      (''2024-10-02'', 739161), (''2024-10-03'', 739162), (''2024-10-04'', 739163)]"

definition sample_forecast :: json where
  "sample_forecast = JObj
     [(''metadata'', JObj [(''name'', JStr []), (''latitude'', JFloat (4814 / 100))]),
      (''data_day'', JObj
         [(''time'',
            JArr [JStr ''2024-09-27'', JStr ''2024-09-28'', JStr ''2024-09-29'', JStr ''2024-09-30'', JStr ''2024-10-01'', JStr ''2024-10-02'', JStr ''2024-10-03'']),
          (''temperature_max'',
            JArr [JInt 19, JInt 21, JInt 18, JInt 17, JInt 16, JInt 18, JInt 20]),
          (''temperature_min'',
            JArr [JInt 9, JInt 11, JInt 10, JInt 8, JInt 7, JInt 8, JInt 10]),
          (''temperature_mean'',
            JArr [JInt 14, JInt 16, JInt 14, JInt 12, JInt 11, JInt 13, JInt 15]),
          (''felttemperature_max'',
            JArr [JInt 18, JInt 21, JInt 17, JInt 15, JInt 14, JInt 17, JInt 19]),
          (''felttemperature_min'',
            JArr [JInt 7, JInt 10, JInt 9, JInt 6, JInt 5, JInt 6, JInt 9]),
          (''precipitation'',
            JArr [JInt 0, JInt 0, JInt 4, JInt 9, JInt 2, JInt 0, JInt 0]),
          (''precipitation_probability'',
            JArr [JInt 5, JInt 10, JInt 70, JInt 85, JInt 40, JInt 10, JInt 5]),
          (''windspeed_mean'',
            JArr [JInt 3, JInt 2, JInt 5, JInt 6, JInt 4, JInt 3, JInt 2]),
          (''winddirection'',
            JArr [JInt 270, JInt 225, JInt 270, JInt 315, JInt 0, JInt 90, JInt 180]),
          (''pictocode'',
            JArr [JInt 1, JInt 7, JInt 23, JInt 25, JInt 31, JInt 4, JInt 2]),
          (''uvindex'',
            JArr [JInt 4, JInt 4, JInt 2, JInt 1, JInt 3, JInt 4, JInt 4]),
          (''relativehumidity_mean'',
            JArr [JInt 60, JInt 58, JInt 75, JInt 88, JInt 70, JInt 62, JInt 59])])]"

definition sample_pages :: "(string \<times> json) list" where
  "sample_pages =
     [(''https://api.opencagedata.com/geocode/v1/json?q=Munich&key=OCKEY'',
       JObj [(''results'',
         JArr [JObj [(''formatted'', JStr ''Munich, Bavaria, Germany''),
                     (''geometry'', JObj [(''lat'', JFloat (48137 / 1000)),
                                         (''lng'', JFloat (1447 / 125))])]])]),
      (''https://api.opencagedata.com/geocode/v1/json?q=Atlantis&key=OCKEY'',
       JObj [(''results'', JArr [])]),
      (''https://api.opencagedata.com/geocode/v1/json?q=Equator&key=OCKEY'',
       JObj [(''results'',
         JArr [JObj [(''geometry'', JObj [(''lat'', JFloat 0),
                                         (''lng'', JFloat (13 / 2))])]])]),
      (''https://api.opencagedata.com/geocode/v1/json?q=Nowhere&key=OCKEY'',
       JObj [(''results'',
         JArr [JObj [(''geometry'', JObj [(''lat'', JNull),
                                         (''lng'', JFloat (13 / 2))])]])]),
      (''https://my.meteoblue.com/packages/basic-day?apikey=MBKEY&lat=48.137&lon=11.576&format=json'',
       sample_forecast),
      (''https://my.meteoblue.com/packages/basic-day?apikey=MBKEY&lat=0.0&lon=6.5&format=json'',
       sample_forecast)]"

definition sample_replies :: "(string \<times> string) list" where
  \<open>sample_replies =
     [(query_prompt ''What's the weather in Munich on 2024-09-30?'',
       ''{"location": "Munich", "date": "2024-09-30"}''),
      (query_prompt ''Weather in Munich?'',
       ''{"location": "Munich", "date": "today"}''),
      (query_prompt ''Weather in Munich next Friday?'',
       ''{"location": "Munich", "date": "2024-10-04"}''),
      (query_prompt ''Weather in Munich tomorrow?'',
       ''{"location": "Munich", "date": "tomorrow"}''),
      (query_prompt ''Weather in Atlantis tomorrow?'',
       ''{"location": "Atlantis", "date": "tomorrow"}''),
      (query_prompt ''Weather on the equator on 2024-09-30?'',
       ''{"location": "Equator", "date": "2024-09-30"}''),
      (query_prompt ''Weather in Munich, whenever'',
       ''{"location": "Munich", "date": ""}''),
      (query_prompt ''hello'',
       ''Hello! Which place and day are you asking about?'')]\<close>

definition sample_documents :: "(string \<times> json) list" where
  \<open>sample_documents =
     [(''{"location": "Munich", "date": "2024-09-30"}'',
       JObj [(''location'', JStr ''Munich''), (''date'', JStr ''2024-09-30'')]),
      (''{"location": "Munich", "date": "today"}'',
       JObj [(''location'', JStr ''Munich''), (''date'', JStr ''today'')]),
      (''{"location": "Munich", "date": "2024-10-04"}'',
       JObj [(''location'', JStr ''Munich''), (''date'', JStr ''2024-10-04'')]),
      (''{"location": "Munich", "date": "tomorrow"}'',
       JObj [(''location'', JStr ''Munich''), (''date'', JStr ''tomorrow'')]),
      (''{"location": "Atlantis", "date": "tomorrow"}'',
       JObj [(''location'', JStr ''Atlantis''), (''date'', JStr ''tomorrow'')]),
      (''{"location": "Equator", "date": "2024-09-30"}'',
       JObj [(''location'', JStr ''Equator''), (''date'', JStr ''2024-09-30'')]),
      (''{"location": "Munich", "date": ""}'',
       JObj [(''location'', JStr ''Munich''), (''date'', JStr [])])]\<close>

definition sample_world :: world where
  "sample_world =
     \<lparr>today = 739156,
      strptime = (\<lambda>s. case map_of sample_dates s of
                          None \<Rightarrow> Inl ValueError
                        | Some d \<Rightarrow> Inr d),
      strftime = (\<lambda>d. case map_of (map (\<lambda>(s, d). (d, s)) sample_dates) d of
                          None \<Rightarrow> []
                        | Some s \<Rightarrow> s),
      json_loads = (\<lambda>s. case map_of sample_documents s of
                            None \<Rightarrow> Inl (ServiceError ''Expecting value: line 1 column 1 (char 0)'')
                          | Some v \<Rightarrow> Inr v),
      generate_content = (\<lambda>prompt. case map_of sample_replies prompt of
                            None \<Rightarrow> Inr ''Rain in the afternoon; take an umbrella.''
                          | Some text \<Rightarrow> Inr text),
      requests_get_json = (\<lambda>url. case map_of sample_pages url of
                            None \<Rightarrow> Inl (ServiceError ''404 Client Error'')
                          | Some v \<Rightarrow> Inr v),
      py_str = (\<lambda>v. if v = JFloat (48137 / 1000) then ''48.137''
                     else if v = JFloat (1447 / 125) then ''11.576''
                     else if v = JFloat 0 then ''0.0''
                     else if v = JFloat (13 / 2) then ''6.5''
                     else ''?''),
      exc_str = (\<lambda>e. case e of
                          KeyError (JStr k) \<Rightarrow> [CHR 0x27] @ k @ [CHR 0x27]
                        | ServiceError text \<Rightarrow> text
                        | _ \<Rightarrow> [])\<rparr>"

definition sample_env :: "string \<Rightarrow> string option" where
  "sample_env =
     map_of [(''GEMINI_API_KEY'', ''GKEY''), (''OPENCAGE_API_KEY'', ''OCKEY''),
             (''METEOBLUE_API_KEY'', ''MBKEY'')]"

text \<open>An environment that holds the text-generation credential only.\<close>

definition gemini_only_env :: "string \<Rightarrow> string option" where
  "gemini_only_env = map_of [(''GEMINI_API_KEY'', ''GKEY'')]"

text \<open>The forecast for 2024-09-30, the fourth of the seven days.\<close>

definition sample_day :: json where
  "sample_day = JObj
     [(''date'', JStr ''2024-09-30''), (''temperature_max'', JInt 17),
      (''temperature_min'', JInt 8), (''temperature_mean'', JInt 12),
      (''felttemperature_max'', JInt 15), (''felttemperature_min'', JInt 6),
      (''precipitation'', JInt 9), (''precipitation_probability'', JInt 85),
      (''windspeed_mean'', JInt 6), (''winddirection'', JInt 315),
      (''pictocode'', JInt 25), (''uvindex'', JInt 1),
      (''relativehumidity_mean'', JInt 88)]"

text \<open>A session in which the environment is the same in every turn.\<close>

definition sample_session :: "nat \<Rightarrow> world" where
  "sample_session n = sample_world"

text \<open>An environment that holds no credential.\<close>

definition no_credentials :: "string \<Rightarrow> string option" where
  "no_credentials = map_of []"

text \<open>Standard input holding the given lines and then ending.\<close>

definition stdin_of :: "string list \<Rightarrow> nat \<Rightarrow> string option" where
  "stdin_of ls n = (if n < length ls then Some (ls ! n) else None)"

section \<open>Properties\<close>

subsection \<open>Condition lookup\<close>

lemma PICTOCODE_MEANINGS_keys: "map fst PICTOCODE_MEANINGS = [1..35]"
  unfolding PICTOCODE_MEANINGS_def by (simp add: upto.simps)

lemma PICTOCODE_MEANINGS_dom: "dom (map_of PICTOCODE_MEANINGS) = {1..35}"
  using PICTOCODE_MEANINGS_keys by (simp add: dom_map_of_conv_image_fst flip: set_map)

text \<open>
  C2: the condition lookup is a total function of the integer code. The table has
  exactly the keys 1..35, each once; for a code in 1..35 the lookup returns the string
  the table holds for it, and for every other integer it returns
  "Unknown weather condition".
\<close>

theorem describe_table:
  "map fst PICTOCODE_MEANINGS = [1..35]
   \<and> (1 \<le> code \<and> code \<le> 35 \<longrightarrow> map_of PICTOCODE_MEANINGS code = Some (describe code))
   \<and> (\<not> (1 \<le> code \<and> code \<le> 35) \<longrightarrow> describe code = ''Unknown weather condition'')"
proof (intro conjI impI)
  show "map fst PICTOCODE_MEANINGS = [1..35]"
    by (rule PICTOCODE_MEANINGS_keys)
next
  assume "1 \<le> code \<and> code \<le> 35"
  then have "code \<in> dom (map_of PICTOCODE_MEANINGS)"
    by (simp add: PICTOCODE_MEANINGS_dom)
  then obtain s where "map_of PICTOCODE_MEANINGS code = Some s"
    by blast
  then show "map_of PICTOCODE_MEANINGS code = Some (describe code)"
    by (simp add: describe_def dict_get_def)
next
  assume "\<not> (1 \<le> code \<and> code \<le> 35)"
  then have "code \<notin> dom (map_of PICTOCODE_MEANINGS)"
    by (simp add: PICTOCODE_MEANINGS_dom)
  then have "map_of PICTOCODE_MEANINGS code = None"
    by blast
  then show "describe code = ''Unknown weather condition''"
    by (simp add: describe_def dict_get_def)
qed

lemma describe_23: "describe 23 = ''Overcast with rain''"
  by (simp add: describe_def dict_get_def PICTOCODE_MEANINGS_def)

theorem describe_table_witness:
  "map_of PICTOCODE_MEANINGS 23 = Some ''Overcast with rain''
   \<and> describe 0 = ''Unknown weather condition''
   \<and> describe 36 = ''Unknown weather condition''
   \<and> describe (- 1) = ''Unknown weather condition''"
  using describe_table [of 23] describe_table [of 0] describe_table [of 36]
    describe_table [of "- 1"]
  by (simp add: describe_23)

subsection \<open>Sequencing\<close>

lemma ebind_Inl [simp]: "ebind (Inl e) f = Inl e"
  by (simp add: ebind_def)

lemma ebind_Inr [simp]: "ebind (Inr x) f = f x"
  by (simp add: ebind_def)

lemma emap_all_Inr:
  "(\<And>x. x \<in> set xs \<Longrightarrow> f x = Inr (g x)) \<Longrightarrow> emap f xs = Inr (map g xs)"
  by (induction xs) simp_all

lemma emap_cong:
  "(\<And>x. x \<in> set xs \<Longrightarrow> f x = g x) \<Longrightarrow> emap f xs = emap g xs"
  by (induction xs) simp_all

subsection \<open>Forecast adapter\<close>

lemma map_of_rev_graph:
  "map_of (rev (map (\<lambda>k. (k, h k)) ks)) k = (if k \<in> set ks then Some (h k) else None)"
proof -
  have "rev (map (\<lambda>k. (k, h k)) ks) = map (\<lambda>k. (k, h k)) (rev ks)"
    by (simp add: rev_map)
  then show ?thesis
    by (simp add: map_of_map_restrict restrict_map_def)
qed

lemma day_value_column:
  assumes dd: "subscript data (JStr ''data_day'') = Inr (JObj kvs)"
    and cols: "list_all (\<lambda>(k, v). seven_day_column v) kvs"
    and k: "k \<in> set (map fst kvs)"
    and d: "0 \<le> d" "d < 7"
  shows "\<exists>x. day_value data (JStr k) d = Inr x"
proof -
  from k obtain v where v: "map_of kvs k = Some v"
    by (metis map_of_eq_None_iff not_Some_eq set_map)
  then have "(k, v) \<in> set kvs"
    by (rule map_of_SomeD)
  with cols have "seven_day_column v"
    by (auto simp: list_all_iff)
  then obtain xs where xs: "v = JArr xs" "7 \<le> length xs"
    by (auto simp: seven_day_column_def split: json.splits)
  with d have "seq_index xs d = Inr (xs ! nat d)"
    by (simp add: seq_index_def)
  with dd v xs show ?thesis
    by (simp add: day_value_def)
qed

lemma day_data_columns:
  assumes dd: "subscript data (JStr ''data_day'') = Inr (JObj kvs)"
    and cols: "list_all (\<lambda>(k, v). seven_day_column v) kvs"
    and d: "0 \<le> d" "d < 7"
  shows "day_data data d =
           Inr (map (\<lambda>key. (key, projr (day_value data key d))) (map (\<lambda>(k, v). JStr k) kvs))"
proof -
  have "emap (\<lambda>key. ebind (day_value data key d) (\<lambda>v. Inr (key, v))) (map (\<lambda>(k, v). JStr k) kvs)
        = Inr (map (\<lambda>key. (key, projr (day_value data key d))) (map (\<lambda>(k, v). JStr k) kvs))"
  proof (rule emap_all_Inr)
    fix key assume "key \<in> set (map (\<lambda>(k, v). JStr k) kvs)"
    then obtain k where "key = JStr k" "k \<in> set (map fst kvs)"
      by force
    with day_value_column [OF dd cols _ d] obtain x where "day_value data key d = Inr x"
      by blast
    then show "ebind (day_value data key d) (\<lambda>v. Inr (key, v)) = Inr (key, projr (day_value data key d))"
      by simp
  qed
  with dd show ?thesis
    by (simp add: day_data_def)
qed

lemma dict_item_day_data:
  assumes dd: "subscript data (JStr ''data_day'') = Inr (JObj kvs)"
    and cols: "list_all (\<lambda>(k, v). seven_day_column v) kvs"
    and k: "k \<in> set (map fst kvs)"
    and d: "0 \<le> d" "d < 7"
    and items: "day_data data d = Inr items"
  shows "dict_item items k = day_value data (JStr k) d"
proof -
  from day_value_column [OF dd cols k d] obtain x where x: "day_value data (JStr k) d = Inr x"
    by blast
  define keys where "keys = map (\<lambda>(k, v). JStr k) kvs"
  from k have mem: "JStr k \<in> set keys"
    unfolding keys_def by force
  from items day_data_columns [OF dd cols d]
  have "items = map (\<lambda>key. (key, projr (day_value data key d))) keys"
    unfolding keys_def by simp
  then have "map_of (rev items) (JStr k) = Some (projr (day_value data (JStr k) d))"
    using mem by (simp only: map_of_rev_graph if_True)
  with x show ?thesis
    by (simp add: dict_item_def)
qed


lemma emap_Inr_length: "emap f xs = Inr ys \<Longrightarrow> length ys = length xs"
proof (induction xs arbitrary: ys)
  case Nil
  then show ?case by simp
next
  case (Cons x xs)
  then show ?case
    by (auto simp: ebind_def split: sum.splits)
qed

lemma emap_total:
  "(\<And>x. x \<in> set xs \<Longrightarrow> \<exists>y. f x = Inr y) \<Longrightarrow> \<exists>ys. emap f xs = Inr ys"
proof (induction xs)
  case Nil
  then show ?case by simp
next
  case (Cons x xs)
  then obtain y ys where "f x = Inr y" "emap f xs = Inr ys"
    by (meson list.set_intros)
  then show ?case by simp
qed

lemma get_weather_data_unfold:
  assumes "env ''METEOBLUE_API_KEY'' = Some key"
    and "requests_get_json w (forecast_url w lat lon key) = Inr data"
    and "strptime w s = Inr target_date"
  shows "get_weather_data env w lat lon (JStr s) =
           (if 0 \<le> target_date - today w \<and> target_date - today w < 7 then
              ebind (day_data data (target_date - today w)) (\<lambda>items.
              ebind (emap (dict_item items) provider_keys) (\<lambda>vs.
              Inr (JObj (zip forecast_fields vs))))
            else Inr JNull)"
  using assms by (simp add: get_weather_data_def environ_get_def parse_date_def Let_def)

lemma forecast_in_window:
  assumes key: "env ''METEOBLUE_API_KEY'' = Some key"
    and data: "requests_get_json w (forecast_url w lat lon key) = Inr data"
    and target: "strptime w s = Inr target_date"
    and wf: "well_formed_forecast data"
    and d: "0 \<le> target_date - today w" "target_date - today w < 7"
  shows "\<exists>vs. emap (\<lambda>name. day_value data (JStr name) (target_date - today w)) provider_keys
                = Inr vs
              \<and> get_weather_data env w lat lon (JStr s) = Inr (JObj (zip forecast_fields vs))"
proof -
  define off where "off = target_date - today w"
  from d have off: "0 \<le> off" "off < 7"
    by (simp_all add: off_def)
  from wf obtain kvs where dd: "subscript data (JStr ''data_day'') = Inr (JObj kvs)"
    and cols: "list_all (\<lambda>(k, v). seven_day_column v) kvs"
    and names: "list_all (\<lambda>name. name \<in> set (map fst kvs)) provider_keys"
    by (auto simp: well_formed_forecast_def split: sum.splits json.splits)
  from names have mem: "\<And>name. name \<in> set provider_keys \<Longrightarrow> name \<in> set (map fst kvs)"
    by (simp add: list_all_iff)
  obtain items where items: "day_data data off = Inr items"
    using day_data_columns [OF dd cols off] by blast
  have same: "emap (dict_item items) provider_keys
                = emap (\<lambda>name. day_value data (JStr name) off) provider_keys"
    by (rule emap_cong) (rule dict_item_day_data [OF dd cols mem off items])
  obtain vs where vs: "emap (\<lambda>name. day_value data (JStr name) off) provider_keys = Inr vs"
    using emap_total [of provider_keys "\<lambda>name. day_value data (JStr name) off"]
      day_value_column [OF dd cols mem off] by blast
  have "get_weather_data env w lat lon (JStr s) = Inr (JObj (zip forecast_fields vs))"
    unfolding get_weather_data_unfold [where env = env, OF key data target]
    using off items same vs by (simp add: off_def [symmetric])
  with vs show ?thesis
    unfolding off_def by blast
qed


lemma sample_well_formed: "well_formed_forecast sample_forecast"
  by (simp add: well_formed_forecast_def sample_forecast_def seven_day_column_def
      provider_keys_def)

lemma sample_forecast_page:
  "requests_get_json sample_world
     (forecast_url sample_world (JFloat (48137 / 1000)) (JFloat (1447 / 125)) ''MBKEY'')
   = Inr sample_forecast"
  by (simp add: sample_world_def forecast_url_def fmt_def sample_pages_def)

lemma sample_strptime:
  "strptime sample_world ''2024-09-30'' = Inr 739159"
  "strptime sample_world ''2024-10-04'' = Inr 739163"
  "strptime sample_world ''2024-09-26'' = Inr 739155"
  by (simp_all add: sample_world_def sample_dates_def)

lemma sample_day_3:
  "emap (\<lambda>name. day_value sample_forecast (JStr name) 3) provider_keys =
     Inr [JStr ''2024-09-30'', JInt 17, JInt 8, JInt 12, JInt 15, JInt 6, JInt 9, JInt 85,
          JInt 6, JInt 315, JInt 25, JInt 1, JInt 88]"
  by (simp add: provider_keys_def day_value_def sample_forecast_def seq_index_def)


subsection \<open>Query interpreter\<close>

lemma subscript_key_dict:
  "subscript c (JStr k) = Inr v \<Longrightarrow> \<exists>kvs. c = JObj kvs \<and> map_of kvs k = Some v"
  by (cases c) (auto split: option.splits)

lemma process_user_query_unfold:
  assumes "generate_content w (query_prompt query) = Inr text"
    and "json_loads w text = Inr info"
    and "subscript info (JStr ''date'') = Inr d"
  shows "process_user_query w query =
           ebind (if d = JStr ''today''
                  then setitem info ''date'' (JStr (strftime w (today w)))
                  else Inr info) (\<lambda>info'.
           ebind (subscript info' (JStr ''location'')) (\<lambda>location.
           ebind (subscript info' (JStr ''date'')) (\<lambda>date.
           Inr (location, date))))"
  using assms by (simp add: process_user_query_def)

text \<open>
  C3: when the reply of the model decodes to a dictionary with a location and a date,
  the interpreter returns the location with the date; a date field that is exactly the
  string "today" is replaced by the current date as \<open>strftime("%Y-%m-%d")\<close> formats it,
  and any other date is returned as it is.
\<close>

theorem interpret_today:
  assumes reply: "generate_content w (query_prompt query) = Inr text"
    and decoded: "json_loads w text = Inr info"
    and date: "subscript info (JStr ''date'') = Inr d"
    and location: "subscript info (JStr ''location'') = Inr l"
  shows "process_user_query w query =
           Inr (l, if d = JStr ''today'' then JStr (strftime w (today w)) else d)"
proof (cases "d = JStr ''today''")
  case False
  with date location show ?thesis
    by (simp add: process_user_query_unfold [OF reply decoded date])
next
  case True
  from date obtain kvs where info: "info = JObj kvs"
    using subscript_key_dict by blast
  with location have "map_of kvs ''location'' = Some l"
    by (auto split: option.splits)
  with True info show ?thesis
    by (simp add: process_user_query_unfold [OF reply decoded date] update_conv')
qed

lemma sample_today: "strftime sample_world (today sample_world) = ''2024-09-27''"
  by (simp add: sample_world_def sample_dates_def)

lemma sample_reply_today:
  "generate_content sample_world (query_prompt ''Weather in Munich?'')
     = Inr ''{\"location\": \"Munich\", \"date\": \"today\"}''"
  by (simp add: sample_world_def sample_replies_def query_prompt_def)


lemma sample_reply_munich:
  \<open>generate_content sample_world (query_prompt ''What's the weather in Munich on 2024-09-30?'')
     = Inr ''{"location": "Munich", "date": "2024-09-30"}''\<close>
  by (simp add: sample_world_def sample_replies_def query_prompt_def)

lemma sample_decode:
  \<open>json_loads sample_world ''{"location": "Munich", "date": "today"}''
     = Inr (JObj [(''location'', JStr ''Munich''), (''date'', JStr ''today'')])\<close>
  \<open>json_loads sample_world ''{"location": "Munich", "date": "2024-09-30"}''
     = Inr (JObj [(''location'', JStr ''Munich''), (''date'', JStr ''2024-09-30'')])\<close>
  by (simp_all add: sample_world_def sample_documents_def)

theorem interpret_today_witness:
  "process_user_query sample_world ''Weather in Munich?''
     = Inr (JStr ''Munich'', JStr ''2024-09-27'')
   \<and> process_user_query sample_world ''What's the weather in Munich on 2024-09-30?''
     = Inr (JStr ''Munich'', JStr ''2024-09-30'')"
  using interpret_today [OF sample_reply_today sample_decode(1), of "JStr ''today''" "JStr ''Munich''"]
    interpret_today [OF sample_reply_munich sample_decode(2), of "JStr ''2024-09-30''" "JStr ''Munich''"]
  by (simp add: sample_today)

subsection \<open>Geocoder adapter\<close>









subsection \<open>The outcomes of a turn\<close>

lemma turn_interpreter_raises:
  "process_user_query w q = Inl e \<Longrightarrow> turn env w q = M4 e"
  by (simp add: turn_def turn_body_def)


lemma turn_geocoder_raises:
  "process_user_query w q = Inr (l, d) \<Longrightarrow> truthy l \<Longrightarrow> truthy d
     \<Longrightarrow> geocode_location env w l = Inl e \<Longrightarrow> turn env w q = M4 e"
  by (simp add: turn_def turn_body_def)

lemma turn_no_coordinates:
  "process_user_query w q = Inr (l, d) \<Longrightarrow> truthy l \<Longrightarrow> truthy d
     \<Longrightarrow> geocode_location env w l = Inr (lat, lon) \<Longrightarrow> \<not> (truthy lat \<and> truthy lon)
     \<Longrightarrow> turn env w q = M2 l"
  by (auto simp: turn_def turn_body_def)

lemma turn_forecast_raises:
  "process_user_query w q = Inr (l, d) \<Longrightarrow> truthy l \<Longrightarrow> truthy d
     \<Longrightarrow> geocode_location env w l = Inr (lat, lon) \<Longrightarrow> truthy lat \<Longrightarrow> truthy lon
     \<Longrightarrow> get_weather_data env w lat lon d = Inl e \<Longrightarrow> turn env w q = M4 e"
  by (simp add: turn_def turn_body_def)

lemma turn_out_of_range:
  "process_user_query w q = Inr (l, d) \<Longrightarrow> truthy l \<Longrightarrow> truthy d
     \<Longrightarrow> geocode_location env w l = Inr (lat, lon) \<Longrightarrow> truthy lat \<Longrightarrow> truthy lon
     \<Longrightarrow> get_weather_data env w lat lon d = Inr weather_data \<Longrightarrow> \<not> truthy weather_data
     \<Longrightarrow> turn env w q = M3 l d"
  by (simp add: turn_def turn_body_def)

lemma turn_composer_raises:
  "process_user_query w q = Inr (l, d) \<Longrightarrow> truthy l \<Longrightarrow> truthy d
     \<Longrightarrow> geocode_location env w l = Inr (lat, lon) \<Longrightarrow> truthy lat \<Longrightarrow> truthy lon
     \<Longrightarrow> get_weather_data env w lat lon d = Inr weather_data \<Longrightarrow> truthy weather_data
     \<Longrightarrow> generate_response w weather_data l = Inl e \<Longrightarrow> turn env w q = M4 e"
  by (simp add: turn_def turn_body_def)


subsection \<open>The sample session, stage by stage\<close>

lemma sample_interpret:
  "process_user_query sample_world ''What's the weather in Munich on 2024-09-30?''
     = Inr (JStr ''Munich'', JStr ''2024-09-30'')"
  "process_user_query sample_world ''Weather in Munich next Friday?''
     = Inr (JStr ''Munich'', JStr ''2024-10-04'')"
  "process_user_query sample_world ''Weather in Munich tomorrow?''
     = Inr (JStr ''Munich'', JStr ''tomorrow'')"
  "process_user_query sample_world ''Weather in Atlantis tomorrow?''
     = Inr (JStr ''Atlantis'', JStr ''tomorrow'')"
  "process_user_query sample_world ''Weather on the equator on 2024-09-30?''
     = Inr (JStr ''Equator'', JStr ''2024-09-30'')"
  "process_user_query sample_world ''Weather in Munich, whenever''
     = Inr (JStr ''Munich'', JStr [])"
  "process_user_query sample_world ''hello''
     = Inl (ServiceError ''Expecting value: line 1 column 1 (char 0)'')"
  by (simp_all add: process_user_query_def sample_world_def sample_replies_def
      sample_documents_def query_prompt_def)


lemma sample_geocode:
  "geocode_location sample_env sample_world (JStr ''Atlantis'') = Inr (JNull, JNull)"
  "geocode_location sample_env sample_world (JStr ''Equator'') = Inr (JFloat 0, JFloat (13 / 2))"
  by (simp_all add: geocode_location_def environ_get_def sample_env_def geocode_url_def fmt_def
      sample_world_def sample_pages_def seq_index_def)

lemma sample_meteoblue: "sample_env ''METEOBLUE_API_KEY'' = Some ''MBKEY''"
  by (simp add: sample_env_def)

lemma sample_forecast_page_equator:
  "requests_get_json sample_world
     (forecast_url sample_world (JFloat 0) (JFloat (13 / 2)) ''MBKEY'')
   = Inr sample_forecast"
  by (simp add: sample_world_def forecast_url_def fmt_def sample_pages_def)

lemma sample_today_ordinal: "today sample_world = 739156"
  by (simp add: sample_world_def)

lemma sample_strptime_tomorrow: "strptime sample_world ''tomorrow'' = Inl ValueError"
  by (simp add: sample_world_def sample_dates_def)

lemma sample_weather:
  "get_weather_data sample_env sample_world (JFloat (48137 / 1000)) (JFloat (1447 / 125))
     (JStr ''2024-09-30'') = Inr sample_day"
  "get_weather_data sample_env sample_world (JFloat 0) (JFloat (13 / 2))
     (JStr ''2024-09-30'') = Inr sample_day"
  using
    forecast_in_window [where env = sample_env, OF sample_meteoblue sample_forecast_page
      sample_strptime(1) sample_well_formed]
    forecast_in_window [where env = sample_env, OF sample_meteoblue sample_forecast_page_equator
      sample_strptime(1) sample_well_formed]
  by (simp_all add: sample_today_ordinal sample_day_3 forecast_fields_def sample_day_def)

lemma sample_weather_out_of_range:
  "get_weather_data sample_env sample_world (JFloat (48137 / 1000)) (JFloat (1447 / 125))
     (JStr ''2024-10-04'') = Inr JNull"
  by (simp add: get_weather_data_unfold [where env = sample_env, OF sample_meteoblue
        sample_forecast_page sample_strptime(2)] sample_today_ordinal)

lemma sample_weather_unparseable:
  "get_weather_data sample_env sample_world (JFloat (48137 / 1000)) (JFloat (1447 / 125))
     (JStr ''tomorrow'') = Inl ValueError"
  using sample_meteoblue sample_forecast_page sample_strptime_tomorrow
  by (simp add: get_weather_data_def environ_get_def parse_date_def)

lemma sample_condition: "weather_condition (JInt 25) = Inr ''Overcast with heavy rain''"
  by (simp add: describe_def dict_get_def PICTOCODE_MEANINGS_def)

lemma sample_prompt_fields:
  "emap (\<lambda>name. subscript sample_day (JStr name)) prompt_fields
     = Inr [JStr ''2024-09-30'', JInt 17, JInt 8, JInt 12, JInt 15, JInt 6, JInt 9, JInt 85,
            JInt 6, JInt 315, JInt 1, JInt 88]"
  by (simp add: prompt_fields_def sample_day_def)

lemma sample_no_reply:
  "map_of sample_replies (response_prompt sample_world l c vs) = None"
  by (simp add: sample_replies_def response_prompt_def query_prompt_def)

lemma sample_generate_content:
  "generate_content sample_world prompt =
     (case map_of sample_replies prompt of
        None \<Rightarrow> Inr ''Rain in the afternoon; take an umbrella.''
      | Some text \<Rightarrow> Inr text)"
  by (simp add: sample_world_def)

lemma sample_response:
  "generate_response sample_world sample_day l = Inr ''Rain in the afternoon; take an umbrella.''"
proof -
  have "subscript sample_day (JStr ''pictocode'') = Inr (JInt 25)"
    by (simp add: sample_day_def)
  moreover have "generate_content sample_world (response_prompt sample_world l c vs)
      = Inr ''Rain in the afternoon; take an umbrella.''" for c vs
    by (simp only: sample_generate_content sample_no_reply option.case)
  ultimately show ?thesis
    by (simp add: generate_response_def sample_condition sample_prompt_fields)
qed



subsection \<open>A turn in which every stage succeeds\<close>


text \<open>
  C4 fails where the geocoder finds a place on the equator or on the prime meridian:
  the interpreter returns both fields, the geocoder returns the coordinates
  \<open>(0.0, 6.5)\<close>, the forecast adapter returns the day for them and the composer a
  report, and yet the loop prints the second message, because \<open>if lat and lon\<close> takes
  the latitude \<open>0.0\<close> for an absent one.
\<close>

theorem equator_turn:
  "process_user_query sample_world ''Weather on the equator on 2024-09-30?''
     = Inr (JStr ''Equator'', JStr ''2024-09-30'')
   \<and> geocode_location sample_env sample_world (JStr ''Equator'')
     = Inr (JFloat 0, JFloat (13 / 2))
   \<and> get_weather_data sample_env sample_world (JFloat 0) (JFloat (13 / 2)) (JStr ''2024-09-30'')
     = Inr sample_day
   \<and> generate_response sample_world sample_day (JStr ''Equator'')
     = Inr ''Rain in the afternoon; take an umbrella.''
   \<and> turn sample_env sample_world ''Weather on the equator on 2024-09-30?''
     = M2 (JStr ''Equator'')"
proof -
  have "turn sample_env sample_world ''Weather on the equator on 2024-09-30?''
          = M2 (JStr ''Equator'')"
    by (rule turn_no_coordinates [OF sample_interpret(5) _ _ sample_geocode(2)]) simp_all
  then show ?thesis
    by (simp add: sample_interpret(5) sample_geocode(2) sample_weather(2) sample_response)
qed

subsection \<open>The first message\<close>

text \<open>
  C6, as the code has it: the loop prints the first message exactly when the interpreter
  returns a location and a date of which one tests false (an empty string, \<open>null\<close>,
  zero). A reply that cannot be decoded, or that lacks a field, raises inside the
  interpreter, and the turn prints the fourth message with that exception.
\<close>

theorem first_message:
  "(turn env w q = M1
      \<longleftrightarrow> (\<exists>l d. process_user_query w q = Inr (l, d) \<and> \<not> (truthy l \<and> truthy d)))
   \<and> (process_user_query w q = Inl e \<longrightarrow> turn env w q = M4 e)
   \<and> (generate_content w (query_prompt q) = Inr text \<and> json_loads w text = Inl e
        \<longrightarrow> turn env w q = M4 e)
   \<and> (generate_content w (query_prompt q) = Inr text \<and> json_loads w text = Inr info
        \<and> subscript info (JStr ''date'') = Inl e
        \<longrightarrow> turn env w q = M4 e)
   \<and> (generate_content w (query_prompt q) = Inr text \<and> json_loads w text = Inr info
        \<and> subscript info (JStr ''date'') = Inr d \<and> subscript info (JStr ''location'') = Inl e
        \<longrightarrow> turn env w q = M4 e)"
proof (intro conjI impI)
  show "turn env w q = M1
      \<longleftrightarrow> (\<exists>l d. process_user_query w q = Inr (l, d) \<and> \<not> (truthy l \<and> truthy d))"
    by (auto simp: turn_def turn_body_def ebind_def split: sum.splits prod.splits if_splits)
next
  assume "process_user_query w q = Inl e"
  then show "turn env w q = M4 e"
    by (rule turn_interpreter_raises)
next
  assume "generate_content w (query_prompt q) = Inr text \<and> json_loads w text = Inl e"
  then have "process_user_query w q = Inl e"
    by (simp add: process_user_query_def)
  then show "turn env w q = M4 e"
    by (rule turn_interpreter_raises)
next
  assume "generate_content w (query_prompt q) = Inr text \<and> json_loads w text = Inr info
        \<and> subscript info (JStr ''date'') = Inl e"
  then have "process_user_query w q = Inl e"
    by (simp add: process_user_query_def)
  then show "turn env w q = M4 e"
    by (rule turn_interpreter_raises)
next
  assume a: "generate_content w (query_prompt q) = Inr text \<and> json_loads w text = Inr info
        \<and> subscript info (JStr ''date'') = Inr d \<and> subscript info (JStr ''location'') = Inl e"
  then obtain kvs where info: "info = JObj kvs" and date: "map_of kvs ''date'' = Some d"
    using subscript_key_dict by blast
  with a have "map_of kvs ''location'' = None" "e = KeyError (JStr ''location'')"
    by (auto split: option.splits)
  with a info date have "process_user_query w q = Inl e"
    by (simp add: process_user_query_def update_conv')
  then show "turn env w q = M4 e"
    by (rule turn_interpreter_raises)
qed


theorem first_message_witness:
  "turn sample_env sample_world ''Weather in Munich, whenever'' = M1
   \<and> process_user_query sample_world ''Weather in Munich, whenever''
       = Inr (JStr ''Munich'', JStr [])
   \<and> turn sample_env sample_world ''hello''
       = M4 (ServiceError ''Expecting value: line 1 column 1 (char 0)'')"
  using first_message [of sample_env sample_world "''Weather in Munich, whenever''"]
    first_message [of sample_env sample_world "''hello''"
      "ServiceError ''Expecting value: line 1 column 1 (char 0)''"]
  by (simp add: sample_interpret)

text \<open>
  C6 fails on a reply that is not JSON: \<open>json.loads\<close> raises, the interpreter produces
  no fields, and the loop prints the fourth message, not the first.
\<close>

theorem undecodable_reply_turn:
  \<open>generate_content sample_world (query_prompt ''hello'')
     = Inr ''Hello! Which place and day are you asking about?''
   \<and> json_loads sample_world ''Hello! Which place and day are you asking about?''
     = Inl (ServiceError ''Expecting value: line 1 column 1 (char 0)'')
   \<and> turn sample_env sample_world ''hello''
     = M4 (ServiceError ''Expecting value: line 1 column 1 (char 0)'')\<close>
proof -
  have \<open>generate_content sample_world (query_prompt ''hello'')
     = Inr ''Hello! Which place and day are you asking about?''\<close>
    by (simp add: sample_generate_content sample_replies_def query_prompt_def)
  moreover have \<open>json_loads sample_world ''Hello! Which place and day are you asking about?''
     = Inl (ServiceError ''Expecting value: line 1 column 1 (char 0)'')\<close>
    by (simp add: sample_world_def sample_documents_def)
  ultimately show ?thesis
    by (simp add: turn_interpreter_raises [OF sample_interpret(7)])
qed


subsection \<open>A date that does not parse\<close>






subsection \<open>The loop\<close>

lemma chat_loop_exit:
  "stdin n = Some user_input \<Longrightarrow> lower user_input = ''exit''
     \<Longrightarrow> chat_loop env W stdin n out = Some (out @ [Farewell], Suc n, Exited)"
  by (subst chat_loop.simps) simp

lemma chat_loop_turn:
  "stdin n = Some user_input \<Longrightarrow> lower user_input \<noteq> ''exit''
     \<Longrightarrow> chat_loop env W stdin n out
         = chat_loop env W stdin (Suc n) (out @ [turn env (W n) user_input])"
  by (subst chat_loop.simps) simp








lemma lower_exit_length: "lower s = ''exit'' \<Longrightarrow> length s = 4"
  by (auto simp: lower_def dest: arg_cong [where f = length])

lemma lower_EXIT: "lower ''EXIT'' = ''exit''" "lower ''exit'' = ''exit''" "lower ''Exit'' = ''exit''"
  by (simp_all add: lower_def lower_char_def)


lemma sample_stdin:
  "stdin_of [a, b] 0 = Some a" "stdin_of [a, b] (Suc 0) = Some b" "stdin_of [a, b] 2 = None"
  "stdin_of [a] 0 = Some a" "stdin_of [a] (Suc 0) = None" "stdin_of [] 0 = None"
  by (simp_all add: stdin_of_def)

lemma munich_not_exit: "lower ''What's the weather in Munich on 2024-09-30?'' \<noteq> ''exit''"
  by (auto dest: lower_exit_length)



subsection \<open>Exceptions inside a turn\<close>



subsection \<open>Credentials\<close>

text \<open>
  C5, as the code has it: only the text-generation credential is read at startup, once,
  and its absence ends the process there, before the banner and before any input is
  read. The geocoding and forecast credentials are read inside their adapters on every
  call; when one of them is absent the process starts as usual, and each turn that
  reaches the adapter prints the fourth message with the \<open>KeyError\<close> of the variable.
\<close>

theorem credentials:
  "(env ''GEMINI_API_KEY'' = None
      \<longrightarrow> main env W stdin = Some ([], 0, Crashed (KeyError (JStr ''GEMINI_API_KEY''))))
   \<and> (env ''GEMINI_API_KEY'' \<noteq> None
      \<longrightarrow> main env W stdin = chat_loop env W stdin 0 [Welcome])
   \<and> (env ''OPENCAGE_API_KEY'' = None
      \<longrightarrow> geocode_location env w l = Inl (KeyError (JStr ''OPENCAGE_API_KEY'')))
   \<and> (env ''METEOBLUE_API_KEY'' = None
      \<longrightarrow> get_weather_data env w lat lon d = Inl (KeyError (JStr ''METEOBLUE_API_KEY'')))
   \<and> (env ''OPENCAGE_API_KEY'' = None
        \<and> process_user_query w q = Inr (l, d) \<and> truthy l \<and> truthy d
      \<longrightarrow> turn env w q = M4 (KeyError (JStr ''OPENCAGE_API_KEY'')))
   \<and> (env ''METEOBLUE_API_KEY'' = None
        \<and> process_user_query w q = Inr (l, d) \<and> truthy l \<and> truthy d
        \<and> geocode_location env w l = Inr (lat, lon) \<and> truthy lat \<and> truthy lon
      \<longrightarrow> turn env w q = M4 (KeyError (JStr ''METEOBLUE_API_KEY'')))"
proof -
  have geo: "geocode_location env w l = Inl (KeyError (JStr ''OPENCAGE_API_KEY''))"
    if "env ''OPENCAGE_API_KEY'' = None" for l
    using that by (simp add: geocode_location_def environ_get_def)
  have fc: "get_weather_data env w lat lon d = Inl (KeyError (JStr ''METEOBLUE_API_KEY''))"
    if "env ''METEOBLUE_API_KEY'' = None" for lat lon d
    using that by (simp add: get_weather_data_def environ_get_def)
  have start: "main env W stdin = Some ([], 0, Crashed (KeyError (JStr ''GEMINI_API_KEY'')))"
    if "env ''GEMINI_API_KEY'' = None"
    using that by (simp add: main_def environ_get_def)
  have run: "main env W stdin = chat_loop env W stdin 0 [Welcome]"
    if "env ''GEMINI_API_KEY'' \<noteq> None"
    using that by (auto simp: main_def environ_get_def)
  have t1: "turn env w q = M4 (KeyError (JStr ''OPENCAGE_API_KEY''))"
    if "env ''OPENCAGE_API_KEY'' = None \<and> process_user_query w q = Inr (l, d)
        \<and> truthy l \<and> truthy d"
    using that turn_geocoder_raises [of w q l d env, OF _ _ _ geo] by blast
  have t2: "turn env w q = M4 (KeyError (JStr ''METEOBLUE_API_KEY''))"
    if "env ''METEOBLUE_API_KEY'' = None \<and> process_user_query w q = Inr (l, d)
        \<and> truthy l \<and> truthy d
        \<and> geocode_location env w l = Inr (lat, lon) \<and> truthy lat \<and> truthy lon"
    using that turn_forecast_raises [of w q l d env lat lon, OF _ _ _ _ _ _ fc] by blast
  show ?thesis
    by (intro conjI impI) (fact start run geo fc t1 t2)+
qed

lemma gemini_only:
  "gemini_only_env ''GEMINI_API_KEY'' = Some ''GKEY''"
  "gemini_only_env ''OPENCAGE_API_KEY'' = None"
  "gemini_only_env ''METEOBLUE_API_KEY'' = None"
  by (simp_all add: gemini_only_env_def)

theorem credentials_witness:
  "main no_credentials sample_session (stdin_of [''exit''])
     = Some ([], 0, Crashed (KeyError (JStr ''GEMINI_API_KEY'')))
   \<and> main gemini_only_env sample_session (stdin_of [''exit''])
     = chat_loop gemini_only_env sample_session (stdin_of [''exit'']) 0 [Welcome]
   \<and> geocode_location gemini_only_env sample_world (JStr ''Munich'')
     = Inl (KeyError (JStr ''OPENCAGE_API_KEY''))
   \<and> turn gemini_only_env sample_world ''What's the weather in Munich on 2024-09-30?''
     = M4 (KeyError (JStr ''OPENCAGE_API_KEY''))"
proof -
  have none: "no_credentials ''GEMINI_API_KEY'' = None"
    by (simp add: no_credentials_def)
  have some: "gemini_only_env ''GEMINI_API_KEY'' \<noteq> None"
    by (simp add: gemini_only)
  have reaches: "gemini_only_env ''OPENCAGE_API_KEY'' = None
      \<and> process_user_query sample_world ''What's the weather in Munich on 2024-09-30?''
          = Inr (JStr ''Munich'', JStr ''2024-09-30'')
      \<and> truthy (JStr ''Munich'') \<and> truthy (JStr ''2024-09-30'')"
    by (simp add: gemini_only sample_interpret(1))
  note a = credentials [of no_credentials sample_session "stdin_of [''exit'']"]
  note b = credentials [of gemini_only_env sample_session "stdin_of [''exit'']" sample_world
      "JStr ''Munich''" _ _ "JStr ''2024-09-30''"
      "''What's the weather in Munich on 2024-09-30?''"]
  have "main no_credentials sample_session (stdin_of [''exit''])
     = Some ([], 0, Crashed (KeyError (JStr ''GEMINI_API_KEY'')))"
    using a none by blast
  moreover have "main gemini_only_env sample_session (stdin_of [''exit''])
     = chat_loop gemini_only_env sample_session (stdin_of [''exit'']) 0 [Welcome]"
    using b some by blast
  moreover have "geocode_location gemini_only_env sample_world (JStr ''Munich'')
     = Inl (KeyError (JStr ''OPENCAGE_API_KEY''))"
    using b gemini_only(2) by blast
  moreover have "turn gemini_only_env sample_world ''What's the weather in Munich on 2024-09-30?''
     = M4 (KeyError (JStr ''OPENCAGE_API_KEY''))"
    using b reaches by blast
  ultimately show ?thesis
    by blast
qed

text \<open>
  C5 fails for the geocoding and forecast credentials: with only the text-generation
  credential set, the process starts, prints the banner, reads a line, and the turn
  prints the fourth message.
\<close>

theorem starts_without_credentials:
  "gemini_only_env ''OPENCAGE_API_KEY'' = None
   \<and> gemini_only_env ''METEOBLUE_API_KEY'' = None
   \<and> main gemini_only_env sample_session
        (stdin_of [''What's the weather in Munich on 2024-09-30?'', ''exit''])
     = Some ([Welcome, M4 (KeyError (JStr ''OPENCAGE_API_KEY'')), Farewell], 2, Exited)"
proof -
  let ?stdin = "stdin_of [''What's the weather in Munich on 2024-09-30?'', ''exit'']"
  have geo: "geocode_location gemini_only_env sample_world (JStr ''Munich'')
      = Inl (KeyError (JStr ''OPENCAGE_API_KEY''))"
    by (simp add: geocode_location_def environ_get_def gemini_only)
  have t: "turn gemini_only_env (sample_session 0) ''What's the weather in Munich on 2024-09-30?''
      = M4 (KeyError (JStr ''OPENCAGE_API_KEY''))"
    unfolding sample_session_def
    by (rule turn_geocoder_raises [OF sample_interpret(1) _ _ geo]) simp_all
  have "chat_loop gemini_only_env sample_session ?stdin 0 [Welcome]
        = chat_loop gemini_only_env sample_session ?stdin (Suc 0)
            ([Welcome] @ [turn gemini_only_env (sample_session 0)
                ''What's the weather in Munich on 2024-09-30?''])"
    by (rule chat_loop_turn [where stdin = ?stdin and n = 0, OF sample_stdin(1) munich_not_exit])
  also have "\<dots> = Some (([Welcome] @ [turn gemini_only_env (sample_session 0)
                ''What's the weather in Munich on 2024-09-30?'']) @ [Farewell], Suc (Suc 0), Exited)"
    by (rule chat_loop_exit [where stdin = ?stdin, OF sample_stdin(2) lower_EXIT(2)])
  finally have run: "chat_loop gemini_only_env sample_session ?stdin 0 [Welcome]
        = Some ([Welcome, M4 (KeyError (JStr ''OPENCAGE_API_KEY'')), Farewell], 2, Exited)"
    by (simp add: t)
  have start: "main gemini_only_env sample_session ?stdin
      = chat_loop gemini_only_env sample_session ?stdin 0 [Welcome]"
    by (simp add: main_def environ_get_def gemini_only)
  show ?thesis
    by (simp only: start run gemini_only simp_thms)
qed

end
